theory Spec2Isabelle
  imports Complex_Main
begin

section \<open>Inverse kinematics by bounded optimisation (ikpy/inverse\_kinematics.py)\<close>

text \<open>
  The module has one function, \<open>inverse_kinematic_optimization\<close>. It builds a scalar
  objective out of nested closures, hands it to \<open>scipy.optimize.minimize\<close> and maps the
  optimiser's answer back to a full joint vector.

  Floating point numbers are idealised as \<open>real\<close>. Exceptions are values of a sum type.
  The calls the function makes to its collaborators (forward kinematics, the optimiser,
  the logger) are recorded as a list of events returned next to every result, so that
  how often and in which order they happen can be stated.
\<close>

subsection \<open>Arrays\<close>

text \<open>
  A pose is a 4 x 4 homogeneous transform, read by row and column index. The source only
  ever reads the slices \<open>[:3, j]\<close> and \<open>[:3, :3]\<close>; column \<open>-1\<close> of a 4 x 4 array is
  column 3.
\<close>

type_synonym frame = "nat \<Rightarrow> nat \<Rightarrow> real"

definition col3 :: "frame \<Rightarrow> nat \<Rightarrow> real list" where
  "col3 M j = [M 0 j, M 1 j, M 2 j]"

definition rot33 :: "frame \<Rightarrow> real list list" where
  "rot33 M = [[M 0 0, M 0 1, M 0 2], [M 1 0, M 1 1, M 1 2], [M 2 0, M 2 1, M 2 2]]"

text \<open>The slices are one-dimensional (a column) or two-dimensional (the rotation block).\<close>

datatype ndarray = Vec "real list" | Mat "real list list"

definition vec_sub :: "real list \<Rightarrow> real list \<Rightarrow> real list" where
  "vec_sub a b = map2 (\<lambda>u v. u - v) a b"

text \<open>
  \<open>a - b\<close> on slices. The source subtracts a column from a column and a block from a
  block; the mixed cases are numpy's broadcasting of a row over the rows of a matrix.
\<close>

fun nd_sub :: "ndarray \<Rightarrow> ndarray \<Rightarrow> ndarray" where
  "nd_sub (Vec a) (Vec b) = Vec (vec_sub a b)"
| "nd_sub (Mat a) (Mat b) = Mat (map2 vec_sub a b)"
| "nd_sub (Mat a) (Vec b) = Mat (map (\<lambda>r. vec_sub r b) a)"
| "nd_sub (Vec a) (Mat b) = Mat (map (\<lambda>r. vec_sub a r) b)"

text \<open>
  \<open>np.linalg.norm\<close> with its default order flattens the array and returns the square root
  of its dot product with itself: the Euclidean norm of a vector, the Frobenius norm of a
  matrix.
\<close>

definition norm_flat :: "real list \<Rightarrow> real" where
  "norm_flat xs = sqrt (sum_list (map (\<lambda>v. v * v) xs))"

fun linalg_norm :: "ndarray \<Rightarrow> real" where
  "linalg_norm (Vec v) = norm_flat v"
| "linalg_norm (Mat m) = norm_flat (concat m)"

datatype error = ValueError string

text \<open>
  \<open>x - s\<close> on one-dimensional arrays whose lengths are not known to agree, as in the
  regularisation term: equal shapes subtract elementwise, a length-one operand is
  broadcast, any other pair of shapes raises ValueError (the shapes that numpy appends to
  the message are left out).
\<close>

definition np_subtract :: "real list \<Rightarrow> real list \<Rightarrow> error + real list" where
  "np_subtract a b =
     (if length a = length b then Inr (vec_sub a b)
      else if length a = 1 then Inr (map (\<lambda>v. hd a - v) b)
      else if length b = 1 then Inr (map (\<lambda>u. u - hd b) a)
      else Inl (ValueError ''operands could not be broadcast together''))"

subsection \<open>The chain and its collaborators\<close>

text \<open>
  Modelled from the spec: the link and chain classes are not part of the module. A link
  carries its bound pair (\<open>None\<close> is the open "no bound" sentinel) and the flag that says
  whether it is active; a chain is its ordered links, the index of the first active link
  and the forward kinematics, a pure function from a full joint vector to a pose.
\<close>

record link =
  bounds :: "real option \<times> real option"
  active :: bool

record chain =
  links :: "link list"
  first_active_joint :: nat
  forward_kinematics :: "real list \<Rightarrow> frame"

text \<open>
  Modelled from the spec: \<open>chain.active_from_full\<close> is not part of the module. It is the
  spec's \<open>reduce\<close>: drop all non-active entries, preserving the relative order of the
  remaining ones.
\<close>

definition active_from_full :: "chain \<Rightarrow> 'a list \<Rightarrow> 'a list" where
  "active_from_full c joints = map snd (filter fst (zip (map active (links c)) joints))"

text \<open>
  Modelled from the spec: \<open>chain.active_to_full\<close> is not part of the module. It is the
  spec's \<open>merge\<close>: a full vector identical to \<open>initial_position\<close> except that the
  active-link positions are replaced, in order, by the values of \<open>active_joints\<close>. The
  result is a new vector. Positions for which no link or no active value is left keep
  their entry.
\<close>

fun place :: "bool list \<Rightarrow> 'a list \<Rightarrow> 'a list \<Rightarrow> 'a list" where
  "place (True # ms) (v # vs) (a # as) = a # place ms vs as"
| "place (False # ms) (v # vs) as = v # place ms vs as"
| "place ms vs as = vs"

definition active_to_full :: "chain \<Rightarrow> 'a list \<Rightarrow> 'a list \<Rightarrow> 'a list" where
  "active_to_full c active_joints initial_position =
     place (map active (links c)) initial_position active_joints"

text \<open>
  What the function does to the outside world: a call of the chain's forward kinematics
  (with the full joint vector), the call of \<open>scipy.optimize.minimize\<close> (with the initial
  guess, the bounds and the \<open>maxiter\<close> option, if set; the method is always L-BFGS-B) and
  the line written to the logger (with the iteration count).
\<close>

datatype event =
    FK "real list"
  | Minimize "real list" "(real option \<times> real option) list" "int option"
  | LogInfo int

record OptimizeResult =
  res_x :: "real list"
  res_nit :: int

text \<open>
  The optimiser is a parameter. It receives the objective (which may raise, and reports
  the forward-kinematics calls it makes), the initial guess, the bounds and the options;
  it returns a result or raises, and reports the events of the objective evaluations it
  made.
\<close>

type_synonym objective = "real list \<Rightarrow> (error + real) \<times> event list"

type_synonym minimizer =
  "objective \<Rightarrow> real list \<Rightarrow> (real option \<times> real option) list \<Rightarrow> int option
     \<Rightarrow> (error + OptimizeResult) \<times> event list"

text \<open>How often the forward kinematics was called in a list of events.\<close>

fun fk_calls :: "event list \<Rightarrow> nat" where
  "fk_calls [] = 0"
| "fk_calls (FK y # evs) = Suc (fk_calls evs)"
| "fk_calls (e # evs) = fk_calls evs"

text \<open>
  An angle lies within a bound pair when it respects each limit that is set; an active
  vector lies within the reduced bounds when it has one angle per reduced pair and every
  angle lies within its pair.
\<close>

definition within_bounds :: "real \<Rightarrow> real option \<times> real option \<Rightarrow> bool" where
  "within_bounds v b =
     ((case fst b of None \<Rightarrow> True | Some lo \<Rightarrow> lo \<le> v)
      \<and> (case snd b of None \<Rightarrow> True | Some hi \<Rightarrow> v \<le> hi))"

subsection \<open>The objective\<close>

definition ORIENTATION_COEFF :: real where
  "ORIENTATION_COEFF = 1"

text \<open>Lines 38 to 44. \<open>target\<close> is \<open>target_frame[:3, -1]\<close>.\<close>

definition optimize_target_function ::
  "chain \<Rightarrow> real list \<Rightarrow> real list \<Rightarrow> real list \<Rightarrow> (real list \<times> real) \<times> event list" where
  "optimize_target_function c target starting_nodes_angles x =
     (let y = active_to_full c x starting_nodes_angles;
          squared_distance_to_target =
            linalg_norm (nd_sub (Vec (col3 (forward_kinematics c y) 3)) (Vec target))
      in ((y, squared_distance_to_target), [FK y]))"

text \<open>
  Lines 52 to 76: the branch on a mode that is not \<open>None\<close> fixes \<open>orientation\<close>, the
  slice of the target, and \<open>get_orientation\<close>, which computes the forward kinematics
  again and takes the same slice of it; any other mode raises.
\<close>

type_synonym orientation_getter = "real list \<Rightarrow> ndarray \<times> event list"

definition orientation_branch ::
  "chain \<Rightarrow> frame \<Rightarrow> string \<Rightarrow> error + (ndarray \<times> orientation_getter)" where
  "orientation_branch c target_frame orientation_mode =
     (if orientation_mode = ''X'' then
        Inr (Vec (col3 target_frame 0), \<lambda>y. (Vec (col3 (forward_kinematics c y) 0), [FK y]))
      else if orientation_mode = ''Y'' then
        Inr (Vec (col3 target_frame 1), \<lambda>y. (Vec (col3 (forward_kinematics c y) 1), [FK y]))
      else if orientation_mode = ''Z'' then
        Inr (Vec (col3 target_frame 2), \<lambda>y. (Vec (col3 (forward_kinematics c y) 2), [FK y]))
      else if orientation_mode = ''all'' then
        Inr (Mat (rot33 target_frame), \<lambda>y. (Mat (rot33 (forward_kinematics c y)), [FK y]))
      else Inl (ValueError (''Unknown orientation mode: '' @ orientation_mode)))"

text \<open>Lines 46 to 76: with mode \<open>None\<close> nothing is selected.\<close>

definition orientation_setup ::
  "chain \<Rightarrow> frame \<Rightarrow> string option \<Rightarrow> error + (ndarray \<times> orientation_getter) option" where
  "orientation_setup c target_frame orientation_mode =
     (case orientation_mode of
        None \<Rightarrow> Inr None
      | Some m \<Rightarrow>
          (case orientation_branch c target_frame m of
             Inl e \<Rightarrow> Inl e
           | Inr sel \<Rightarrow> Inr (Some sel)))"

text \<open>Lines 47 to 49 (nothing selected) and 78 to 85 (a slice selected).\<close>

definition optimize_function ::
  "chain \<Rightarrow> real list \<Rightarrow> real list \<Rightarrow> (ndarray \<times> orientation_getter) option \<Rightarrow> real list
     \<Rightarrow> real \<times> event list" where
  "optimize_function c target starting_nodes_angles sel x =
     (case sel of
        None \<Rightarrow>
          (let ((y, squared_distance_to_target), evs) =
                 optimize_target_function c target starting_nodes_angles x
           in (squared_distance_to_target, evs))
      | Some (orientation, get_orientation) \<Rightarrow>
          (let ((y, squared_distance_to_target), evs1) =
                 optimize_target_function c target starting_nodes_angles x;
               (current, evs2) = get_orientation y;
               squared_distance_to_orientation = linalg_norm (nd_sub current orientation);
               squared_distance =
                 squared_distance_to_target + ORIENTATION_COEFF * squared_distance_to_orientation
           in (squared_distance, evs1 @ evs2)))"

text \<open>
  Lines 91 to 96. The regularisation is computed before the objective is called, from
  the slice \<open>starting_nodes_angles[chain.first_active_joint:]\<close>.
\<close>

definition optimize_total ::
  "chain \<Rightarrow> real list \<Rightarrow> real list \<Rightarrow> (ndarray \<times> orientation_getter) option \<Rightarrow> real option
     \<Rightarrow> objective" where
  "optimize_total c target starting_nodes_angles sel regularization_parameter x =
     (case regularization_parameter of
        Some r \<Rightarrow>
          (case np_subtract x (drop (first_active_joint c) starting_nodes_angles) of
             Inl e \<Rightarrow> (Inl e, [])
           | Inr d \<Rightarrow>
               (let regularization = norm_flat d;
                    (v, evs) = optimize_function c target starting_nodes_angles sel x
                in (Inr (v + r * regularization), evs)))
      | None \<Rightarrow>
          (let (v, evs) = optimize_function c target starting_nodes_angles sel x
           in (Inr v, evs)))"

subsection \<open>The solver\<close>

text \<open>Lines 99 to 101.\<close>

definition real_bounds :: "chain \<Rightarrow> (real option \<times> real option) list" where
  "real_bounds c = active_from_full c (map bounds (links c))"

text \<open>
  The whole function. The mode is checked first (line 76), the starting configuration
  second (line 88); only then is the optimiser called (line 109), the iteration count
  logged (line 111) and the solution merged into the starting configuration (line 113).
\<close>

definition inverse_kinematic_optimization ::
  "chain \<Rightarrow> frame \<Rightarrow> real list option \<Rightarrow> real option \<Rightarrow> int option \<Rightarrow> string option
     \<Rightarrow> minimizer \<Rightarrow> (error + real list) \<times> event list" where
  "inverse_kinematic_optimization c target_frame starting_nodes_angles
       regularization_parameter max_iter orientation_mode minimize =
     (let target = col3 target_frame 3 in
      case orientation_setup c target_frame orientation_mode of
        Inl e \<Rightarrow> (Inl e, [])
      | Inr sel \<Rightarrow>
          (case starting_nodes_angles of
             None \<Rightarrow> (Inl (ValueError ''starting_nodes_angles must be specified''), [])
           | Some s \<Rightarrow>
               (let optimize = optimize_total c target s sel regularization_parameter;
                    x0 = active_from_full c s
                in case minimize optimize x0 (real_bounds c) max_iter of
                     (Inl e, evs) \<Rightarrow> (Inl e, Minimize x0 (real_bounds c) max_iter # evs)
                   | (Inr res, evs) \<Rightarrow>
                       (Inr (active_to_full c (res_x res) s),
                        Minimize x0 (real_bounds c) max_iter # evs @ [LogInfo (res_nit res)]))))"

subsection \<open>The caller's array in a store\<close>

text \<open>
  In Python \<open>starting_nodes_angles\<close> refers to an array that the caller keeps. The
  definitions above take its content as a value. To say what a call does to the array,
  the definitions below pass the content of the array along as a store: each takes the
  content before and returns the content after, and each reads the array where the
  source reads it (the closures read it at every evaluation of the objective).
\<close>

text \<open>
  Modelled from the spec: \<open>chain.active_to_full\<close> and \<open>chain.active_from_full\<close> are
  not part of the module. The spec's \<open>merge\<close> "must not mutate the input full": it
  returns a new vector and leaves the array as it was; \<open>reduce\<close> returns a new vector
  as well.
\<close>

definition active_to_full_st :: "chain \<Rightarrow> real list \<Rightarrow> real list \<Rightarrow> real list \<times> real list" where
  "active_to_full_st c active_joints st = (active_to_full c active_joints st, st)"

definition active_from_full_st :: "chain \<Rightarrow> real list \<Rightarrow> real list \<times> real list" where
  "active_from_full_st c st = (active_from_full c st, st)"

text \<open>
  The objective and the optimiser with the store: the optimiser is handed the store
  because the objective it evaluates reads the array.
\<close>

type_synonym objective_st = "real list \<Rightarrow> real list \<Rightarrow> ((error + real) \<times> event list) \<times> real list"

type_synonym minimizer_st =
  "objective_st \<Rightarrow> real list \<Rightarrow> (real option \<times> real option) list \<Rightarrow> int option \<Rightarrow> real list
     \<Rightarrow> ((error + OptimizeResult) \<times> event list) \<times> real list"

text \<open>Lines 38 to 44.\<close>

definition optimize_target_function_st ::
  "chain \<Rightarrow> real list \<Rightarrow> real list \<Rightarrow> real list
     \<Rightarrow> ((real list \<times> real) \<times> event list) \<times> real list" where
  "optimize_target_function_st c target x st =
     (let (y, st1) = active_to_full_st c x st;
          squared_distance_to_target =
            linalg_norm (nd_sub (Vec (col3 (forward_kinematics c y) 3)) (Vec target))
      in (((y, squared_distance_to_target), [FK y]), st1))"

text \<open>Lines 47 to 49 and 78 to 85.\<close>

definition optimize_function_st ::
  "chain \<Rightarrow> real list \<Rightarrow> (ndarray \<times> orientation_getter) option \<Rightarrow> real list \<Rightarrow> real list
     \<Rightarrow> (real \<times> event list) \<times> real list" where
  "optimize_function_st c target sel x st =
     (case sel of
        None \<Rightarrow>
          (let (((y, squared_distance_to_target), evs), st1) =
                 optimize_target_function_st c target x st
           in ((squared_distance_to_target, evs), st1))
      | Some (orientation, get_orientation) \<Rightarrow>
          (let (((y, squared_distance_to_target), evs1), st1) =
                 optimize_target_function_st c target x st;
               (current, evs2) = get_orientation y;
               squared_distance_to_orientation = linalg_norm (nd_sub current orientation);
               squared_distance =
                 squared_distance_to_target + ORIENTATION_COEFF * squared_distance_to_orientation
           in ((squared_distance, evs1 @ evs2), st1)))"

text \<open>Lines 91 to 96.\<close>

definition optimize_total_st ::
  "chain \<Rightarrow> real list \<Rightarrow> (ndarray \<times> orientation_getter) option \<Rightarrow> real option
     \<Rightarrow> objective_st" where
  "optimize_total_st c target sel regularization_parameter x st =
     (case regularization_parameter of
        Some r \<Rightarrow>
          (case np_subtract x (drop (first_active_joint c) st) of
             Inl e \<Rightarrow> ((Inl e, []), st)
           | Inr d \<Rightarrow>
               (let regularization = norm_flat d;
                    ((v, evs), st1) = optimize_function_st c target sel x st
                in ((Inr (v + r * regularization), evs), st1)))
      | None \<Rightarrow>
          (let ((v, evs), st1) = optimize_function_st c target sel x st
           in ((Inr v, evs), st1)))"

text \<open>
  The whole function. Next to the result and the events it returns the content of the
  caller's array after the call (\<open>None\<close> when no array was given).
\<close>

definition inverse_kinematic_optimization_st ::
  "chain \<Rightarrow> frame \<Rightarrow> real list option \<Rightarrow> real option \<Rightarrow> int option \<Rightarrow> string option
     \<Rightarrow> minimizer_st \<Rightarrow> ((error + real list) \<times> event list) \<times> real list option" where
  "inverse_kinematic_optimization_st c target_frame starting_nodes_angles
       regularization_parameter max_iter orientation_mode minimize =
     (let target = col3 target_frame 3 in
      case orientation_setup c target_frame orientation_mode of
        Inl e \<Rightarrow> ((Inl e, []), starting_nodes_angles)
      | Inr sel \<Rightarrow>
          (case starting_nodes_angles of
             None \<Rightarrow> ((Inl (ValueError ''starting_nodes_angles must be specified''), []), None)
           | Some st0 \<Rightarrow>
               (let optimize = optimize_total_st c target sel regularization_parameter;
                    (x0, st1) = active_from_full_st c st0
                in case minimize optimize x0 (real_bounds c) max_iter st1 of
                     ((Inl e, evs), st2) \<Rightarrow>
                       ((Inl e, Minimize x0 (real_bounds c) max_iter # evs), Some st2)
                   | ((Inr res, evs), st2) \<Rightarrow>
                       (let (r, st3) = active_to_full_st c (res_x res) st2
                        in ((Inr r,
                             Minimize x0 (real_bounds c) max_iter # evs @ [LogInfo (res_nit res)]),
                            Some st3)))))"

text \<open>
  The optimiser holds no reference to the caller's array: whatever happens to the array
  while it runs happens in an evaluation of the objective. So an optimiser whose
  objective leaves the array as it is leaves the array as it is.
\<close>

definition keeps_store :: "minimizer_st \<Rightarrow> bool" where
  "keeps_store minimize =
     (\<forall>f x0 bnds opts st.
        (\<forall>x st'. snd (f x st') = st') \<longrightarrow> snd (minimize f x0 bnds opts st) = st)"

text \<open>An optimiser that knows nothing of the array, run next to it.\<close>

definition store_oblivious :: "minimizer \<Rightarrow> minimizer_st" where
  "store_oblivious minimize f x0 bnds opts st =
     (minimize (\<lambda>x. fst (f x st)) x0 bnds opts, st)"

subsection \<open>A chain and an optimiser to run the definitions on\<close>

text \<open>
  A chain of prismatic joints along the x axis: the end effector sits at the sum of the
  joint values, with the identity as its rotation.
\<close>

definition slider_fk :: "real list \<Rightarrow> frame" where
  "slider_fk y i j =
     (if j = 3 then (if i = 0 then sum_list y else if i = 3 then 1 else 0)
      else if i = j then 1 else 0)"

definition free_link :: "bool \<Rightarrow> link" where
  "free_link a = \<lparr>bounds = (None, None), active = a\<rparr>"

definition slider_chain :: "bool list \<Rightarrow> nat \<Rightarrow> chain" where
  "slider_chain flags k =
     \<lparr>links = map free_link flags, first_active_joint = k, forward_kinematics = slider_fk\<rparr>"

text \<open>
  The same chain with a fixed base, a free joint, a joint limited to [-1, 1] and a fixed
  tip.
\<close>

definition limited_chain :: chain where
  "limited_chain =
     \<lparr>links = [free_link False, free_link True,
               \<lparr>bounds = (Some (- 1), Some 1), active = True\<rparr>, free_link False],
      first_active_joint = 1, forward_kinematics = slider_fk\<rparr>"

definition identity_frame :: frame where
  "identity_frame i j = (if i = j then 1 else 0)"

text \<open>A pose at the origin, turned by a quarter about the z axis.\<close>

definition quarter_turn_frame :: frame where
  "quarter_turn_frame i j =
     (if i = 1 \<and> j = 0 then 1
      else if i = 0 \<and> j = 1 then - 1
      else if i = j \<and> (i = 2 \<or> i = 3) then 1
      else 0)"

text \<open>An optimiser that evaluates the objective once, at the initial guess, and returns it.\<close>

definition one_shot_minimize :: minimizer where
  "one_shot_minimize f x0 bnds opts =
     (case f x0 of
        (Inl e, evs) \<Rightarrow> (Inl e, evs)
      | (Inr v, evs) \<Rightarrow> (Inr \<lparr>res_x = x0, res_nit = 0\<rparr>, evs))"

text \<open>
  An optimiser that evaluates the objective at the initial guess and at a given point,
  and returns that point after one iteration.
\<close>

definition probe_minimize :: "real list \<Rightarrow> minimizer" where
  "probe_minimize p f x0 bnds opts =
     (case f x0 of
        (Inl e, evs0) \<Rightarrow> (Inl e, evs0)
      | (Inr v0, evs0) \<Rightarrow>
          (case f p of
             (Inl e, evs1) \<Rightarrow> (Inl e, evs0 @ evs1)
           | (Inr v1, evs1) \<Rightarrow> (Inr \<lparr>res_x = p, res_nit = 1\<rparr>, evs0 @ evs1)))"

text \<open>The same optimiser on an objective that reads the caller's array.\<close>

definition probe_minimize_st :: "real list \<Rightarrow> minimizer_st" where
  "probe_minimize_st p f x0 bnds opts st =
     (case f x0 st of
        ((Inl e, evs0), st1) \<Rightarrow> ((Inl e, evs0), st1)
      | ((Inr v0, evs0), st1) \<Rightarrow>
          (case f p st1 of
             ((Inl e, evs1), st2) \<Rightarrow> ((Inl e, evs0 @ evs1), st2)
           | ((Inr v1, evs1), st2) \<Rightarrow> ((Inr \<lparr>res_x = p, res_nit = 1\<rparr>, evs0 @ evs1), st2)))"

text \<open>
  An optimiser that moves the initial guess into the box of the bounds it is given,
  evaluates the objective there once and returns that point.
\<close>

definition clip :: "real \<Rightarrow> real option \<times> real option \<Rightarrow> real" where
  "clip v b =
     (let v1 = (case fst b of None \<Rightarrow> v | Some lo \<Rightarrow> max lo v)
      in case snd b of None \<Rightarrow> v1 | Some hi \<Rightarrow> min hi v1)"

definition clipping_minimize :: minimizer where
  "clipping_minimize f x0 bnds opts =
     (let p = map2 clip x0 bnds
      in case f p of
           (Inl e, evs) \<Rightarrow> (Inl e, evs)
         | (Inr v, evs) \<Rightarrow> (Inr \<lparr>res_x = p, res_nit = 1\<rparr>, evs))"

section \<open>Properties\<close>

subsection \<open>Argument checks\<close>

lemma orientation_branch_unknown:
  "m \<notin> {''X'', ''Y'', ''Z'', ''all''} \<Longrightarrow>
     orientation_branch c tf m = Inl (ValueError (''Unknown orientation mode: '' @ m))"
  by (simp add: orientation_branch_def)

lemma orientation_branch_known:
  "m \<in> {''X'', ''Y'', ''Z'', ''all''} \<Longrightarrow> \<exists>sel. orientation_branch c tf m = Inr sel"
  by (auto simp add: orientation_branch_def)

lemma orientation_setup_unknown:
  "m \<notin> {''X'', ''Y'', ''Z'', ''all''} \<Longrightarrow>
     orientation_setup c tf (Some m) = Inl (ValueError (''Unknown orientation mode: '' @ m))"
  by (simp add: orientation_setup_def orientation_branch_unknown)

lemma orientation_setup_known:
  "m \<in> {''X'', ''Y'', ''Z'', ''all''} \<Longrightarrow>
     \<exists>sel. orientation_setup c tf (Some m) = Inr (Some sel)"
  using orientation_branch_known[of m c tf] by (auto simp add: orientation_setup_def)

lemma orientation_setup_None: "orientation_setup c tf None = Inr None"
  by (simp add: orientation_setup_def)

lemma solve_unknown_mode:
  "m \<notin> {''X'', ''Y'', ''Z'', ''all''} \<Longrightarrow>
     inverse_kinematic_optimization c tf s reg mi (Some m) minimize =
       (Inl (ValueError (''Unknown orientation mode: '' @ m)), [])"
  by (simp add: inverse_kinematic_optimization_def orientation_setup_unknown)

lemma solve_missing_start:
  "orientation_setup c tf mode = Inr sel \<Longrightarrow>
     inverse_kinematic_optimization c tf None reg mi mode minimize =
       (Inl (ValueError ''starting_nodes_angles must be specified''), [])"
  by (simp add: inverse_kinematic_optimization_def)

text \<open>
  C5. When the starting configuration is absent or the orientation mode is a string
  other than "X", "Y", "Z" and "all", the call raises a ValueError, whatever the
  optimiser is, and no event has happened: the optimiser was not called and the forward
  kinematics (so the objective) was never evaluated.
\<close>

theorem invalid_argument_before_optimizer:
  assumes "s = None \<or> (\<exists>m. mode = Some m \<and> m \<notin> {''X'', ''Y'', ''Z'', ''all''})"
  shows "\<exists>msg. \<forall>minimize.
           inverse_kinematic_optimization c tf s reg mi mode minimize =
             (Inl (ValueError msg), [])"
proof (cases "\<exists>m. mode = Some m \<and> m \<notin> {''X'', ''Y'', ''Z'', ''all''}")
  case True
  then obtain m where "mode = Some m" "m \<notin> {''X'', ''Y'', ''Z'', ''all''}" by blast
  then show ?thesis using solve_unknown_mode by blast
next
  case False
  with assms have s: "s = None" by blast
  have "\<exists>sel. orientation_setup c tf mode = Inr sel"
  proof (cases mode)
    case None
    then show ?thesis by (simp add: orientation_setup_None)
  next
    case (Some m)
    with False have "m \<in> {''X'', ''Y'', ''Z'', ''all''}" by blast
    then show ?thesis using orientation_setup_known[of m c tf] Some by blast
  qed
  then show ?thesis using solve_missing_start s by blast
qed

theorem invalid_argument_before_optimizer_witness:
  "(\<exists>msg. \<forall>minimize.
      inverse_kinematic_optimization (slider_chain [True] 0) identity_frame (Some [0])
        None None (Some ''W'') minimize = (Inl (ValueError msg), []))
   \<and> (\<exists>msg. \<forall>minimize.
      inverse_kinematic_optimization (slider_chain [True] 0) identity_frame None
        None None None minimize = (Inl (ValueError msg), []))"
proof -
  have a: "Some [0::real] = None
      \<or> (\<exists>m. Some ''W'' = Some m \<and> m \<notin> {''X'', ''Y'', ''Z'', ''all''})"
    by simp
  have b: "(None :: real list option) = None
      \<or> (\<exists>m. (None::string option) = Some m \<and> m \<notin> {''X'', ''Y'', ''Z'', ''all''})"
    by simp
  show ?thesis
    using invalid_argument_before_optimizer[OF a] invalid_argument_before_optimizer[OF b]
    by blast
qed

lemma recognised_cases:
  "mode \<in> {None, Some ''X'', Some ''Y'', Some ''Z'', Some ''all''} \<Longrightarrow>
     \<exists>sel. orientation_setup c tf mode = Inr sel"
  using orientation_setup_known[of _ c tf] orientation_setup_None[of c tf] by auto

lemma unrecognised_cases:
  "mode \<notin> {None, Some ''X'', Some ''Y'', Some ''Z'', Some ''all''} \<Longrightarrow>
     \<exists>m. mode = Some m \<and> m \<notin> {''X'', ''Y'', ''Z'', ''all''}"
  by (cases mode) auto




lemma setup_ok_iff:
  "(\<exists>sel. orientation_setup c tf mode = Inr sel) =
      (mode \<in> {None, Some ''X'', Some ''Y'', Some ''Z'', Some ''all''})"
proof
  assume ok: "\<exists>sel. orientation_setup c tf mode = Inr sel"
  show "mode \<in> {None, Some ''X'', Some ''Y'', Some ''Z'', Some ''all''}"
  proof (rule ccontr)
    assume "mode \<notin> {None, Some ''X'', Some ''Y'', Some ''Z'', Some ''all''}"
    then have "\<exists>m. mode = Some m \<and> m \<notin> {''X'', ''Y'', ''Z'', ''all''}"
      by (rule unrecognised_cases)
    then obtain m where m: "mode = Some m" "m \<notin> {''X'', ''Y'', ''Z'', ''all''}"
      by (elim exE conjE)
    have "orientation_setup c tf (Some m) = Inl (ValueError (''Unknown orientation mode: '' @ m))"
      using m(2) by (rule orientation_setup_unknown)
    with ok m(1) show False by simp
  qed
next
  assume "mode \<in> {None, Some ''X'', Some ''Y'', Some ''Z'', Some ''all''}"
  then show "\<exists>sel. orientation_setup c tf mode = Inr sel" by (rule recognised_cases)
qed

lemma solve_unrecognised:
  assumes "mode \<notin> {None, Some ''X'', Some ''Y'', Some ''Z'', Some ''all''}"
  shows "\<exists>m. mode = Some m \<and>
           inverse_kinematic_optimization c tf s reg mi mode minimize =
             (Inl (ValueError (''Unknown orientation mode: '' @ m)), [])"
proof -
  from assms have "\<exists>m. mode = Some m \<and> m \<notin> {''X'', ''Y'', ''Z'', ''all''}"
    by (rule unrecognised_cases)
  then obtain m where m: "mode = Some m" "m \<notin> {''X'', ''Y'', ''Z'', ''all''}"
    by (elim exE conjE)
  have "inverse_kinematic_optimization c tf s reg mi (Some m) minimize =
             (Inl (ValueError (''Unknown orientation mode: '' @ m)), [])"
    using m(2) by (rule solve_unknown_mode)
  with m(1) show ?thesis by simp
qed

text \<open>
  C9. Mode matching is exact and case-sensitive: the setup accepts \<open>None\<close> and the
  strings "X", "Y", "Z" and "all" and nothing else; with any other mode the call raises
  the ValueError "Unknown orientation mode: ..." carrying that string, before anything
  else happens.
\<close>

theorem orientation_mode_exact:
  "((\<exists>sel. orientation_setup c tf mode = Inr sel) =
      (mode \<in> {None, Some ''X'', Some ''Y'', Some ''Z'', Some ''all''}))
   \<and> (mode \<notin> {None, Some ''X'', Some ''Y'', Some ''Z'', Some ''all''} \<longrightarrow>
        (\<exists>m. mode = Some m \<and>
           inverse_kinematic_optimization c tf s reg mi mode minimize =
             (Inl (ValueError (''Unknown orientation mode: '' @ m)), [])))"
proof (intro conjI impI)
  show "(\<exists>sel. orientation_setup c tf mode = Inr sel) =
      (mode \<in> {None, Some ''X'', Some ''Y'', Some ''Z'', Some ''all''})"
    by (rule setup_ok_iff)
next
  assume "mode \<notin> {None, Some ''X'', Some ''Y'', Some ''Z'', Some ''all''}"
  then show "\<exists>m. mode = Some m \<and>
           inverse_kinematic_optimization c tf s reg mi mode minimize =
             (Inl (ValueError (''Unknown orientation mode: '' @ m)), [])"
    by (rule solve_unrecognised)
qed


theorem orientation_mode_exact_witness:
  "inverse_kinematic_optimization (slider_chain [True] 0) identity_frame (Some [0]) None None
      (Some ''All'') one_shot_minimize = (Inl (ValueError ''Unknown orientation mode: All''), [])
   \<and> inverse_kinematic_optimization (slider_chain [True] 0) identity_frame (Some [0]) None None
      (Some ''ALL'') one_shot_minimize = (Inl (ValueError ''Unknown orientation mode: ALL''), [])
   \<and> inverse_kinematic_optimization (slider_chain [True] 0) identity_frame (Some [0]) None None
      (Some ''x'') one_shot_minimize = (Inl (ValueError ''Unknown orientation mode: x''), [])
   \<and> (\<exists>sel. orientation_setup (slider_chain [True] 0) identity_frame (Some ''all'') = Inr sel)
   \<and> (\<exists>sel. orientation_setup (slider_chain [True] 0) identity_frame None = Inr sel)"
proof -
  let ?c = "slider_chain [True] 0"
  have 1: "Some ''All'' \<notin> {None, Some ''X'', Some ''Y'', Some ''Z'', Some ''all''}" by simp
  have 2: "Some ''ALL'' \<notin> {None, Some ''X'', Some ''Y'', Some ''Z'', Some ''all''}" by simp
  have 3: "Some ''x'' \<notin> {None, Some ''X'', Some ''Y'', Some ''Z'', Some ''all''}" by simp
  have 4: "Some ''all'' \<in> {None, Some ''X'', Some ''Y'', Some ''Z'', Some ''all''}" by simp
  have 5: "None \<in> {None, Some ''X'', Some ''Y'', Some ''Z'', Some ''all''}" by simp
  note t = orientation_mode_exact[of ?c identity_frame _ "Some [0]" None None one_shot_minimize]
  from t[of "Some ''All''"] 1 have a: "inverse_kinematic_optimization ?c identity_frame (Some [0]) None None
      (Some ''All'') one_shot_minimize = (Inl (ValueError ''Unknown orientation mode: All''), [])"
    by simp
  from t[of "Some ''ALL''"] 2 have b: "inverse_kinematic_optimization ?c identity_frame (Some [0]) None None
      (Some ''ALL'') one_shot_minimize = (Inl (ValueError ''Unknown orientation mode: ALL''), [])"
    by simp
  from t[of "Some ''x''"] 3 have c: "inverse_kinematic_optimization ?c identity_frame (Some [0]) None None
      (Some ''x'') one_shot_minimize = (Inl (ValueError ''Unknown orientation mode: x''), [])"
    by simp
  from t[of "Some ''all''"] 4 have d: "\<exists>sel. orientation_setup ?c identity_frame (Some ''all'') = Inr sel"
    by blast
  from t[of "None"] 5 have e: "\<exists>sel. orientation_setup ?c identity_frame None = Inr sel"
    by blast
  from a b c d e show ?thesis by (intro conjI)
qed

lemma solve_start_present_events:
  "orientation_setup c tf mode = Inr sel \<Longrightarrow>
     snd (inverse_kinematic_optimization c tf (Some s) reg mi mode minimize) \<noteq> []"
  by (simp add: inverse_kinematic_optimization_def Let_def split: prod.splits sum.splits)

text \<open>
  C10. The mode check comes first: without a starting configuration, an unrecognised
  mode raises the unknown-mode error; and the call raises the error about the missing
  starting configuration with nothing done exactly when the starting configuration is
  absent and the mode is a recognised one.
\<close>

theorem mode_check_precedes_start_check:
  "(m \<notin> {''X'', ''Y'', ''Z'', ''all''} \<longrightarrow>
      inverse_kinematic_optimization c tf None reg mi (Some m) minimize =
        (Inl (ValueError (''Unknown orientation mode: '' @ m)), []))
   \<and> ((inverse_kinematic_optimization c tf s reg mi mode minimize =
        (Inl (ValueError ''starting_nodes_angles must be specified''), [])) =
      (s = None \<and> mode \<in> {None, Some ''X'', Some ''Y'', Some ''Z'', Some ''all''}))"
proof (intro conjI impI)
  assume "m \<notin> {''X'', ''Y'', ''Z'', ''all''}"
  then show "inverse_kinematic_optimization c tf None reg mi (Some m) minimize =
        (Inl (ValueError (''Unknown orientation mode: '' @ m)), [])"
    by (rule solve_unknown_mode)
next
  show "(inverse_kinematic_optimization c tf s reg mi mode minimize =
        (Inl (ValueError ''starting_nodes_angles must be specified''), [])) =
      (s = None \<and> mode \<in> {None, Some ''X'', Some ''Y'', Some ''Z'', Some ''all''})"
  proof (cases "mode \<in> {None, Some ''X'', Some ''Y'', Some ''Z'', Some ''all''}")
    case True
    then have "\<exists>sel. orientation_setup c tf mode = Inr sel" by (rule recognised_cases)
    then obtain sel where sel: "orientation_setup c tf mode = Inr sel" by (elim exE)
    show ?thesis
    proof (cases s)
      case None
      have "inverse_kinematic_optimization c tf None reg mi mode minimize =
        (Inl (ValueError ''starting_nodes_angles must be specified''), [])"
        using sel by (rule solve_missing_start)
      with None True show ?thesis by simp
    next
      case (Some s')
      have "snd (inverse_kinematic_optimization c tf (Some s') reg mi mode minimize) \<noteq> []"
        using sel by (rule solve_start_present_events)
      then have "inverse_kinematic_optimization c tf (Some s') reg mi mode minimize \<noteq>
        (Inl (ValueError ''starting_nodes_angles must be specified''), [])"
        by (metis snd_conv)
      with Some show ?thesis by simp
    qed
  next
    case False
    then have "\<exists>m'. mode = Some m' \<and>
           inverse_kinematic_optimization c tf s reg mi mode minimize =
             (Inl (ValueError (''Unknown orientation mode: '' @ m')), [])"
      by (rule solve_unrecognised)
    then obtain m' where m: "inverse_kinematic_optimization c tf s reg mi mode minimize =
             (Inl (ValueError (''Unknown orientation mode: '' @ m')), [])"
      by (elim exE conjE)
    have "''Unknown orientation mode: '' @ m' \<noteq> ''starting_nodes_angles must be specified''"
      by simp
    with m False show ?thesis by simp
  qed
qed

theorem mode_check_precedes_start_check_witness:
  "inverse_kinematic_optimization (slider_chain [True] 0) identity_frame None None None
      (Some ''W'') one_shot_minimize = (Inl (ValueError ''Unknown orientation mode: W''), [])
   \<and> inverse_kinematic_optimization (slider_chain [True] 0) identity_frame None None None
      (Some ''Z'') one_shot_minimize =
        (Inl (ValueError ''starting_nodes_angles must be specified''), [])"
proof -
  have 1: "''W'' \<notin> {''X'', ''Y'', ''Z'', ''all''}" by simp
  have 2: "Some ''Z'' \<in> {None, Some ''X'', Some ''Y'', Some ''Z'', Some ''all''}" by simp
  note t = mode_check_precedes_start_check[of "''W''" "slider_chain [True] 0" identity_frame
     None None one_shot_minimize None "Some ''Z''"]
  from t 1 have a: "inverse_kinematic_optimization (slider_chain [True] 0) identity_frame None None None
      (Some ''W'') one_shot_minimize = (Inl (ValueError ''Unknown orientation mode: W''), [])"
    by simp
  from t 2 have b: "inverse_kinematic_optimization (slider_chain [True] 0) identity_frame None None None
      (Some ''Z'') one_shot_minimize =
        (Inl (ValueError ''starting_nodes_angles must be specified''), [])"
    by blast
  from a b show ?thesis by (intro conjI)
qed

subsection \<open>Reduction to the active joints and back\<close>

lemma place_reduce: "place ms f (map snd (filter fst (zip ms f))) = f"
proof (induction ms arbitrary: f)
  case Nil
  then show ?case by simp
next
  case (Cons m ms)
  show ?case
  proof (cases f)
    case Nil
    then show ?thesis by simp
  next
    case (Cons v vs)
    with Cons.IH[of vs] show ?thesis by (cases m) simp_all
  qed
qed

lemma length_place: "length (place ms f a) = length f"
  by (induction ms f a rule: place.induct) simp_all

lemma reduce_place:
  "length f = length ms \<Longrightarrow> length a = length (filter id ms) \<Longrightarrow>
     map snd (filter fst (zip ms (place ms f a))) = a"
proof (induction ms f arbitrary: a rule: list_induct2')
  case (4 m ms v vs)
  show ?case
  proof (cases m)
    case True
    with 4 obtain a0 as where a: "a = a0 # as" by (cases a) auto
    with 4 True show ?thesis by simp
  next
    case False
    with 4 show ?thesis by simp
  qed
qed simp_all

lemma place_inactive:
  "i < length f \<Longrightarrow> i < length ms \<Longrightarrow> \<not> ms ! i \<Longrightarrow> place ms f a ! i = f ! i"
proof (induction ms f a arbitrary: i rule: place.induct)
  case (1 ms v vs a as)
  then show ?case by (cases i) simp_all
next
  case (2 ms v vs as)
  then show ?case by (cases i) simp_all
qed simp_all

lemma length_reduce:
  "length xs = length ms \<Longrightarrow> length (map snd (filter fst (zip ms xs))) = length (filter id ms)"
  by (induction ms xs rule: list_induct2') simp_all

lemma reduce_zip:
  "map snd (filter fst (zip ms (zip xs ys))) =
     zip (map snd (filter fst (zip ms xs))) (map snd (filter fst (zip ms ys)))"
proof (induction ms arbitrary: xs ys)
  case Nil
  then show ?case by simp
next
  case (Cons m ms)
  show ?case
  proof (cases xs)
    case Nil
    then show ?thesis by simp
  next
    case xs: (Cons x xs')
    show ?thesis
    proof (cases ys)
      case Nil
      then show ?thesis by simp
    next
      case (Cons y ys')
      with xs Cons.IH[of xs' ys'] show ?thesis by simp
    qed
  qed
qed

lemma reduce_map_self: "map snd (filter fst (zip (map p xs) (map g xs))) = map g (filter p xs)"
  by (induction xs) simp_all

lemma real_bounds_links: "real_bounds c = map bounds (filter active (links c))"
  by (simp add: real_bounds_def active_from_full_def reduce_map_self)

lemma length_real_bounds: "length (real_bounds c) = length (filter id (map active (links c)))"
  by (simp add: real_bounds_links filter_map comp_def)

lemma active_to_full_from_full: "active_to_full c (active_from_full c g) g = g"
  by (simp add: active_to_full_def active_from_full_def place_reduce)

lemma active_from_full_to_full:
  "length f = length (links c) \<Longrightarrow> length a = length (real_bounds c) \<Longrightarrow>
     active_from_full c (active_to_full c a f) = a"
  by (simp add: active_to_full_def active_from_full_def reduce_place length_real_bounds)

text \<open>
  C6. Round trips of the reduction to the active joints and of the merge: merging the
  reduction of any full vector \<open>g\<close> into \<open>g\<close> gives \<open>g\<close> back; and for a full vector
  \<open>f\<close> (one entry per link) and an active vector \<open>a\<close> within the chain's reduced bounds,
  reducing the merge of \<open>a\<close> into \<open>f\<close> gives \<open>a\<close> back.
\<close>

theorem reduce_merge_round_trips:
  assumes "length f = length (links c)" and "list_all2 within_bounds a (real_bounds c)"
  shows "active_to_full c (active_from_full c g) g = g
     \<and> active_from_full c (active_to_full c a f) = a"
proof -
  from assms(2) have "length a = length (real_bounds c)" by (rule list_all2_lengthD)
  with assms(1) have "active_from_full c (active_to_full c a f) = a"
    by (rule active_from_full_to_full)
  then show ?thesis by (simp add: active_to_full_from_full)
qed

lemma limited_links:
  "map active (links limited_chain) = [False, True, True, False]"
  by (simp add: limited_chain_def free_link_def)

lemma limited_bounds: "real_bounds limited_chain = [(None, None), (Some (- 1), Some 1)]"
  by (simp add: real_bounds_links limited_chain_def free_link_def)

theorem reduce_merge_round_trips_witness:
  "active_from_full limited_chain [1, 2, 3, 4 :: real] = [2, 3]
   \<and> active_to_full limited_chain [2, 3] [1, 2, 3, 4 :: real] = [1, 2, 3, 4]
   \<and> active_to_full limited_chain [7, 1 / 2] [1, 2, 3, 4 :: real] = [1, 7, 1 / 2, 4]
   \<and> active_from_full limited_chain [1, 7, 1 / 2, 4 :: real] = [7, 1 / 2]"
proof -
  have l: "length [1, 2, 3, 4 :: real] = length (links limited_chain)"
    by (simp add: limited_chain_def)
  have b: "list_all2 within_bounds [7, 1 / 2] (real_bounds limited_chain)"
    by (simp add: limited_bounds within_bounds_def)
  have r: "active_from_full limited_chain [1, 2, 3, 4 :: real] = [2, 3]"
    by (simp add: active_from_full_def limited_links)
  have m: "active_to_full limited_chain [7, 1 / 2] [1, 2, 3, 4 :: real] = [1, 7, 1 / 2, 4]"
    by (simp add: active_to_full_def limited_links)
  from reduce_merge_round_trips[OF l b, of "[1, 2, 3, 4 :: real]"] r m show ?thesis by simp
qed

subsection \<open>The call of the optimiser and the returned vector\<close>

lemma solve_run:
  "orientation_setup c tf mode = Inr sel \<Longrightarrow>
     inverse_kinematic_optimization c tf (Some s) reg mi mode minimize =
       (case minimize (optimize_total c (col3 tf 3) s sel reg) (active_from_full c s)
               (real_bounds c) mi of
          (Inl e, evs) \<Rightarrow> (Inl e, Minimize (active_from_full c s) (real_bounds c) mi # evs)
        | (Inr res, evs) \<Rightarrow>
            (Inr (active_to_full c (res_x res) s),
             Minimize (active_from_full c s) (real_bounds c) mi # evs @ [LogInfo (res_nit res)]))"
  by (simp add: inverse_kinematic_optimization_def Let_def)

lemma solve_success_cases:
  assumes "inverse_kinematic_optimization c tf start reg mi mode minimize = (Inr r, out)"
  shows "\<exists>s sel res evs.
           start = Some s \<and> orientation_setup c tf mode = Inr sel
           \<and> minimize (optimize_total c (col3 tf 3) s sel reg) (active_from_full c s)
                 (real_bounds c) mi = (Inr res, evs)
           \<and> r = active_to_full c (res_x res) s
           \<and> out = Minimize (active_from_full c s) (real_bounds c) mi # evs @ [LogInfo (res_nit res)]"
proof (cases "orientation_setup c tf mode")
  case (Inl e)
  with assms show ?thesis by (simp add: inverse_kinematic_optimization_def)
next
  case (Inr sel)
  show ?thesis
  proof (cases start)
    case None
    with assms Inr show ?thesis by (simp add: inverse_kinematic_optimization_def)
  next
    case (Some s)
    obtain q evs where m: "minimize (optimize_total c (col3 tf 3) s sel reg)
        (active_from_full c s) (real_bounds c) mi = (q, evs)"
      by (cases "minimize (optimize_total c (col3 tf 3) s sel reg)
        (active_from_full c s) (real_bounds c) mi")
    show ?thesis
    proof (cases q)
      case (Inl e)
      with assms Some m show ?thesis by (simp add: solve_run[OF Inr])
    next
      case res: (Inr res)
      with assms Some m have "r = active_to_full c (res_x res) s"
        and "out = Minimize (active_from_full c s) (real_bounds c) mi # evs @ [LogInfo (res_nit res)]"
        by (simp_all add: solve_run[OF Inr])
      with Some Inr m res show ?thesis by blast
    qed
  qed
qed

lemma merge_length: "length (active_to_full c a s) = length s"
  by (simp add: active_to_full_def length_place)

lemma merge_inactive:
  "i < length s \<Longrightarrow> i < length (links c) \<Longrightarrow> \<not> active (links c ! i) \<Longrightarrow>
     active_to_full c a s ! i = s ! i"
  by (simp add: active_to_full_def place_inactive)

lemma length_active_from_full:
  "length s = length (links c) \<Longrightarrow> length (active_from_full c s) = length (real_bounds c)"
  using length_reduce[of s "map active (links c)"]
  by (simp add: active_from_full_def length_real_bounds)

lemma limited_from_full: "active_from_full limited_chain [a, b, c, d] = [b, c]"
  by (simp add: active_from_full_def limited_links)

lemma limited_to_full: "active_to_full limited_chain [p, q] [a, b, c, d] = [a, p, q, d]"
  by (simp add: active_to_full_def limited_links)

lemma optimize_total_plain:
  "optimize_total c target s None None x =
     (Inr (snd (fst (optimize_target_function c target s x))), [FK (active_to_full c x s)])"
  by (simp add: optimize_total_def optimize_function_def optimize_target_function_def Let_def)

lemma limited_run:
  "inverse_kinematic_optimization limited_chain identity_frame (Some [1, 2, 3, 4]) None None
       None (probe_minimize [7, 1 / 2]) =
     (Inr [1, 7, 1 / 2, 4],
      [Minimize [2, 3] [(None, None), (Some (- 1), Some 1)] None,
       FK [1, 2, 3, 4], FK [1, 7, 1 / 2, 4], LogInfo 1])"
  by (simp add: solve_run[OF orientation_setup_None] probe_minimize_def optimize_total_plain
      limited_from_full limited_to_full limited_bounds)

lemma solve_first_event:
  "orientation_setup c tf mode = Inr sel \<Longrightarrow>
     \<exists>rest. snd (inverse_kinematic_optimization c tf (Some s) reg mi mode minimize) =
       Minimize (active_from_full c s) (real_bounds c) mi # rest"
  by (simp add: solve_run split: prod.splits sum.splits)

lemma initial_guess_bounds_aligned:
  "zip (active_from_full c s) (real_bounds c) = active_from_full c (zip s (map bounds (links c)))"
  by (simp add: real_bounds_def active_from_full_def reduce_zip)

subsection \<open>The caller's array\<close>

lemma optimize_target_function_st_value:
  "optimize_target_function_st c target x st = (optimize_target_function c target st x, st)"
  by (simp add: optimize_target_function_st_def optimize_target_function_def
      active_to_full_st_def Let_def)

lemma optimize_function_st_value:
  "optimize_function_st c target sel x st = (optimize_function c target st sel x, st)"
  by (simp add: optimize_function_st_def optimize_function_def
      optimize_target_function_st_value Let_def split_def split: option.splits)

lemma optimize_total_st_value:
  "optimize_total_st c target sel reg x st = (optimize_total c target st sel reg x, st)"
  by (simp add: optimize_total_st_def optimize_total_def optimize_function_st_value
      Let_def split_def split: option.splits sum.splits)

lemma optimize_total_st_keeps: "snd (optimize_total_st c target sel reg x st) = st"
  by (simp add: optimize_total_st_value)

lemma solve_st_run:
  "orientation_setup c tf mode = Inr sel \<Longrightarrow>
     inverse_kinematic_optimization_st c tf (Some s) reg mi mode minimize =
       (case minimize (optimize_total_st c (col3 tf 3) sel reg) (active_from_full c s)
               (real_bounds c) mi s of
          ((Inl e, evs), s2) \<Rightarrow>
            ((Inl e, Minimize (active_from_full c s) (real_bounds c) mi # evs), Some s2)
        | ((Inr res, evs), s2) \<Rightarrow>
            ((Inr (active_to_full c (res_x res) s2),
              Minimize (active_from_full c s) (real_bounds c) mi # evs @ [LogInfo (res_nit res)]),
             Some s2))"
  by (simp add: inverse_kinematic_optimization_st_def active_from_full_st_def
      active_to_full_st_def Let_def split: prod.splits sum.splits)

lemma solve_st_success_cases:
  assumes "inverse_kinematic_optimization_st c tf start reg mi mode minimize =
      ((Inr r, out), after)"
  shows "\<exists>s sel res evs s2.
           start = Some s \<and> orientation_setup c tf mode = Inr sel
           \<and> minimize (optimize_total_st c (col3 tf 3) sel reg) (active_from_full c s)
                 (real_bounds c) mi s = ((Inr res, evs), s2)
           \<and> r = active_to_full c (res_x res) s2
           \<and> after = Some s2"
proof (cases "orientation_setup c tf mode")
  case (Inl e)
  with assms show ?thesis by (simp add: inverse_kinematic_optimization_st_def)
next
  case (Inr sel)
  show ?thesis
  proof (cases start)
    case None
    with assms Inr show ?thesis by (simp add: inverse_kinematic_optimization_st_def)
  next
    case (Some s)
    obtain q evs s2 where m: "minimize (optimize_total_st c (col3 tf 3) sel reg)
        (active_from_full c s) (real_bounds c) mi s = ((q, evs), s2)"
      by (metis surj_pair)
    show ?thesis
    proof (cases q)
      case (Inl e)
      with assms Some m show ?thesis by (simp add: solve_st_run[OF Inr])
    next
      case res: (Inr res)
      with assms Some m have "r = active_to_full c (res_x res) s2" and "after = Some s2"
        by (simp_all add: solve_st_run[OF Inr])
      with Some Inr m res show ?thesis by blast
    qed
  qed
qed

lemma keeps_storeD:
  assumes "keeps_store minimize" and "\<And>x st'. snd (f x st') = st'"
  shows "snd (minimize f x0 bnds opts st) = st"
  using assms unfolding keeps_store_def by blast

lemma keeps_store_probe: "keeps_store (probe_minimize_st p)"
  unfolding keeps_store_def
proof (intro allI impI)
  fix f :: objective_st and x0 bnds opts st
  assume k: "\<forall>x st'. snd (f x st') = st'"
  obtain q0 e0 s1 where a: "f x0 st = ((q0, e0), s1)" by (metis surj_pair)
  with k have s1: "s1 = st" by (metis snd_conv)
  obtain q1 e1 s2 where b: "f p st = ((q1, e1), s2)" by (metis surj_pair)
  with k have s2: "s2 = st" by (metis snd_conv)
  show "snd (probe_minimize_st p f x0 bnds opts st) = st"
    using a b s1 s2 by (simp add: probe_minimize_st_def split: sum.splits)
qed

lemma keeps_store_oblivious: "keeps_store (store_oblivious m)"
  by (simp add: keeps_store_def store_oblivious_def)

lemma store_oblivious_agrees:
  "inverse_kinematic_optimization_st c tf start reg mi mode (store_oblivious m) =
     (inverse_kinematic_optimization c tf start reg mi mode m, start)"
proof (cases "orientation_setup c tf mode")
  case (Inl e)
  then show ?thesis
    by (simp add: inverse_kinematic_optimization_st_def inverse_kinematic_optimization_def)
next
  case (Inr sel)
  show ?thesis
  proof (cases start)
    case None
    with Inr show ?thesis
      by (simp add: inverse_kinematic_optimization_st_def inverse_kinematic_optimization_def)
  next
    case (Some s)
    have f: "(\<lambda>x. fst (optimize_total_st c (col3 tf 3) sel reg x s)) =
        optimize_total c (col3 tf 3) s sel reg"
      by (rule ext) (simp add: optimize_total_st_value)
    show ?thesis
      unfolding Some solve_st_run[OF Inr] solve_run[OF Inr]
      by (simp add: store_oblivious_def f split: prod.splits sum.splits)
  qed
qed

text \<open>
  C4. With an optimiser that has no reference to the caller's array, every successful
  call had a starting configuration \<open>s\<close> and a recognised mode, the optimiser returned
  a result, and the value returned is the merge of the optimiser's active vector into
  \<open>s\<close>: it is as long as \<open>s\<close>, agrees with \<open>s\<close> at every position of a link that is
  not active, and (for \<open>s\<close> with one entry per link and a solution of the dimension of
  the initial guess) holds the optimiser's vector, in order, at the active positions.
  The caller's array holds after the call what it held before.
\<close>

theorem solve_returns_merge:
  assumes "keeps_store minimize"
    and "inverse_kinematic_optimization_st c tf start reg mi mode minimize =
      ((Inr r, out), after)"
  shows "\<exists>s sel res evs.
           start = Some s \<and> orientation_setup c tf mode = Inr sel
           \<and> minimize (optimize_total_st c (col3 tf 3) sel reg) (active_from_full c s)
                 (real_bounds c) mi s = ((Inr res, evs), s)
           \<and> r = active_to_full c (res_x res) s
           \<and> length r = length s
           \<and> (\<forall>i. i < length s \<and> i < length (links c) \<and> \<not> active (links c ! i)
                  \<longrightarrow> r ! i = s ! i)
           \<and> (length s = length (links c)
                \<and> length (res_x res) = length (active_from_full c s)
                  \<longrightarrow> active_from_full c r = res_x res)
           \<and> after = start"
proof -
  from solve_st_success_cases[OF assms(2)] obtain s sel res evs s2 where
    h: "start = Some s" "orientation_setup c tf mode = Inr sel"
       "minimize (optimize_total_st c (col3 tf 3) sel reg) (active_from_full c s)
                 (real_bounds c) mi s = ((Inr res, evs), s2)"
       "r = active_to_full c (res_x res) s2" "after = Some s2"
    by blast
  have "snd (minimize (optimize_total_st c (col3 tf 3) sel reg) (active_from_full c s)
                 (real_bounds c) mi s) = s"
    using assms(1) by (rule keeps_storeD) (rule optimize_total_st_keeps)
  with h(3) have s2: "s2 = s" by simp
  have 1: "length r = length s" using h(4) s2 by (simp add: merge_length)
  have 2: "\<forall>i. i < length s \<and> i < length (links c) \<and> \<not> active (links c ! i)
                  \<longrightarrow> r ! i = s ! i"
    using h(4) s2 by (simp add: merge_inactive)
  have 3: "length s = length (links c)
                \<and> length (res_x res) = length (active_from_full c s)
                  \<longrightarrow> active_from_full c r = res_x res"
    using h(4) s2 by (simp add: active_from_full_to_full length_active_from_full)
  from h s2 1 2 3 show ?thesis by blast
qed

lemma optimize_total_st_plain:
  "optimize_total_st c target None None x st =
     ((Inr (snd (fst (optimize_target_function c target st x))), [FK (active_to_full c x st)]), st)"
  by (simp add: optimize_total_st_value optimize_total_plain)

lemma limited_run_st:
  "inverse_kinematic_optimization_st limited_chain identity_frame (Some [1, 2, 3, 4]) None None
       None (probe_minimize_st [7, 1 / 2]) =
     ((Inr [1, 7, 1 / 2, 4],
       [Minimize [2, 3] [(None, None), (Some (- 1), Some 1)] None,
        FK [1, 2, 3, 4], FK [1, 7, 1 / 2, 4], LogInfo 1]),
      Some [1, 2, 3, 4])"
  by (simp add: solve_st_run[OF orientation_setup_None] probe_minimize_st_def
      optimize_total_st_plain limited_from_full limited_to_full limited_bounds)

theorem solve_returns_merge_witness:
  "inverse_kinematic_optimization_st limited_chain identity_frame (Some [1, 2, 3, 4]) None None
       None (probe_minimize_st [7, 1 / 2]) =
     ((Inr [1, 7, 1 / 2, 4],
       [Minimize [2, 3] [(None, None), (Some (- 1), Some 1)] None,
        FK [1, 2, 3, 4], FK [1, 7, 1 / 2, 4], LogInfo 1]),
      Some [1, 2, 3, 4])
   \<and> active_from_full limited_chain [1, 7, 1 / 2, 4 :: real] = [7, 1 / 2]"
proof -
  from solve_returns_merge[OF keeps_store_probe limited_run_st] obtain s sel res evs where
    h: "Some [1, 2, 3, 4] = Some s" "orientation_setup limited_chain identity_frame None = Inr sel"
       "probe_minimize_st [7, 1 / 2]
          (optimize_total_st limited_chain (col3 identity_frame 3) sel None)
          (active_from_full limited_chain s) (real_bounds limited_chain) None s =
        ((Inr res, evs), s)"
       "length s = length (links limited_chain)
          \<and> length (res_x res) = length (active_from_full limited_chain s)
          \<longrightarrow> active_from_full limited_chain [1, 7, 1 / 2, 4] = res_x res"
    by blast
  from h(1) have s: "s = [1, 2, 3, 4]" by simp
  from h(2) have sel: "sel = None" by (simp add: orientation_setup_None)
  from h(3) have res: "res_x res = [7, 1 / 2]"
    by (auto simp add: s sel probe_minimize_st_def optimize_total_st_plain)
  have "length s = length (links limited_chain)" by (simp add: s limited_chain_def)
  moreover have "length (res_x res) = length (active_from_full limited_chain s)"
    by (simp add: res s limited_from_full)
  ultimately have "active_from_full limited_chain [1, 7, 1 / 2, 4 :: real] = [7, 1 / 2]"
    using h(4) res by simp
  with limited_run_st show ?thesis by simp
qed

subsection \<open>The bounds handed to the optimiser\<close>

text \<open>
  C7. A call that reaches the optimiser is the call of the optimiser with the initial
  guess, the option and, as its bounds, the bound pairs collected from every link and
  reduced like a joint vector; the result of the call hangs on what the optimiser makes
  of these arguments. The bounds are exactly the pairs of the active links, unchanged and
  in link order (so a pair without limits stays the open sentinel), one per entry of the
  initial guess and aligned with it.
\<close>

theorem bounds_passed_to_optimizer:
  assumes "orientation_setup c tf mode = Inr sel" and "length s = length (links c)"
  shows "inverse_kinematic_optimization c tf (Some s) reg mi mode minimize =
       (case minimize (optimize_total c (col3 tf 3) s sel reg) (active_from_full c s)
               (active_from_full c (map bounds (links c))) mi of
          (Inl e, evs) \<Rightarrow>
            (Inl e,
             Minimize (active_from_full c s) (active_from_full c (map bounds (links c))) mi
               # evs)
        | (Inr res, evs) \<Rightarrow>
            (Inr (active_to_full c (res_x res) s),
             Minimize (active_from_full c s) (active_from_full c (map bounds (links c))) mi
               # evs @ [LogInfo (res_nit res)]))
     \<and> (\<exists>rest. snd (inverse_kinematic_optimization c tf (Some s) reg mi mode minimize) =
             Minimize (active_from_full c s) (real_bounds c) mi # rest)
     \<and> real_bounds c = active_from_full c (map bounds (links c))
     \<and> active_from_full c (map bounds (links c)) = map bounds (filter active (links c))
     \<and> length (active_from_full c (map bounds (links c))) = length (active_from_full c s)
     \<and> zip (active_from_full c s) (active_from_full c (map bounds (links c))) =
         active_from_full c (zip s (map bounds (links c)))"
proof (intro conjI)
  show "inverse_kinematic_optimization c tf (Some s) reg mi mode minimize =
       (case minimize (optimize_total c (col3 tf 3) s sel reg) (active_from_full c s)
               (active_from_full c (map bounds (links c))) mi of
          (Inl e, evs) \<Rightarrow>
            (Inl e,
             Minimize (active_from_full c s) (active_from_full c (map bounds (links c))) mi
               # evs)
        | (Inr res, evs) \<Rightarrow>
            (Inr (active_to_full c (res_x res) s),
             Minimize (active_from_full c s) (active_from_full c (map bounds (links c))) mi
               # evs @ [LogInfo (res_nit res)]))"
    using solve_run[OF assms(1)] by (simp only: real_bounds_def)
  show "\<exists>rest. snd (inverse_kinematic_optimization c tf (Some s) reg mi mode minimize) =
             Minimize (active_from_full c s) (real_bounds c) mi # rest"
    using assms(1) by (rule solve_first_event)
  show "real_bounds c = active_from_full c (map bounds (links c))"
    by (rule real_bounds_def)
  show "active_from_full c (map bounds (links c)) = map bounds (filter active (links c))"
    using real_bounds_links[of c] by (simp only: real_bounds_def)
  show "length (active_from_full c (map bounds (links c))) = length (active_from_full c s)"
    using length_active_from_full[OF assms(2)] by (simp only: real_bounds_def)
  show "zip (active_from_full c s) (active_from_full c (map bounds (links c))) =
         active_from_full c (zip s (map bounds (links c)))"
    using initial_guess_bounds_aligned[of c s] by (simp only: real_bounds_def)
qed

lemma limited_collected:
  "active_from_full limited_chain (map bounds (links limited_chain)) =
     [(None, None), (Some (- 1), Some 1)]"
  using limited_bounds by (simp only: real_bounds_def)

theorem bounds_passed_to_optimizer_witness:
  "inverse_kinematic_optimization limited_chain identity_frame (Some [1, 2, 3, 4])
       None (Some 5) None clipping_minimize =
     (Inr [1, 2, 1, 4],
      [Minimize [2, 3] [(None, None), (Some (- 1), Some 1)] (Some 5), FK [1, 2, 1, 4],
       LogInfo 1])
   \<and> map bounds (filter active (links limited_chain)) = [(None, None), (Some (- 1), Some 1)]
   \<and> active_from_full limited_chain (zip [1, 2, 3, 4 :: real] (map bounds (links limited_chain))) =
       [(2, (None, None)), (3, (Some (- 1), Some 1))]"
proof -
  have l: "length [1, 2, 3, 4 :: real] = length (links limited_chain)"
    by (simp add: limited_chain_def)
  note t = bounds_passed_to_optimizer[OF orientation_setup_None l, of identity_frame None
      "Some 5" clipping_minimize]
  from t have "inverse_kinematic_optimization limited_chain identity_frame (Some [1, 2, 3, 4])
       None (Some 5) None clipping_minimize =
       (case clipping_minimize
               (optimize_total limited_chain (col3 identity_frame 3) [1, 2, 3, 4] None None)
               (active_from_full limited_chain [1, 2, 3, 4])
               (active_from_full limited_chain (map bounds (links limited_chain))) (Some 5) of
          (Inl e, evs) \<Rightarrow>
            (Inl e,
             Minimize (active_from_full limited_chain [1, 2, 3, 4])
               (active_from_full limited_chain (map bounds (links limited_chain))) (Some 5)
               # evs)
        | (Inr res, evs) \<Rightarrow>
            (Inr (active_to_full limited_chain (res_x res) [1, 2, 3, 4]),
             Minimize (active_from_full limited_chain [1, 2, 3, 4])
               (active_from_full limited_chain (map bounds (links limited_chain))) (Some 5)
               # evs @ [LogInfo (res_nit res)]))"
    by (elim conjE)
  then have a: "inverse_kinematic_optimization limited_chain identity_frame (Some [1, 2, 3, 4])
       None (Some 5) None clipping_minimize =
     (Inr [1, 2, 1, 4],
      [Minimize [2, 3] [(None, None), (Some (- 1), Some 1)] (Some 5), FK [1, 2, 1, 4],
       LogInfo 1])"
    by (simp add: limited_collected limited_from_full limited_to_full clipping_minimize_def
        clip_def optimize_total_plain)
  from t have "active_from_full limited_chain (map bounds (links limited_chain)) =
      map bounds (filter active (links limited_chain))"
    by (elim conjE)
  then have b: "map bounds (filter active (links limited_chain)) =
      [(None, None), (Some (- 1), Some 1)]"
    unfolding limited_collected by (rule sym)
  from t have "zip (active_from_full limited_chain [1, 2, 3, 4 :: real])
       (active_from_full limited_chain (map bounds (links limited_chain))) =
     active_from_full limited_chain (zip [1, 2, 3, 4] (map bounds (links limited_chain)))"
    by (elim conjE)
  then have c: "active_from_full limited_chain
       (zip [1, 2, 3, 4 :: real] (map bounds (links limited_chain))) =
       [(2, (None, None)), (3, (Some (- 1), Some 1))]"
    unfolding limited_collected limited_from_full by simp
  from a b c show ?thesis by (intro conjI)
qed

subsection \<open>The value of the objective\<close>

lemma sum3: "(\<Sum>i<3. f i) = f (0::nat) + f 1 + (f 2 :: real)"
  by (simp add: numeral_3_eq_3 numeral_2_eq_2)

lemma norm_col:
  "norm_flat (vec_sub (col3 P j) (col3 T j)) = sqrt (\<Sum>i<3. (P i j - T i j)\<^sup>2)"
  by (simp add: col3_def vec_sub_def norm_flat_def sum3 power2_eq_square)

lemma norm_block:
  "norm_flat (concat (map2 vec_sub (rot33 P) (rot33 T))) =
     sqrt (\<Sum>i<3. \<Sum>j<3. (P i j - T i j)\<^sup>2)"
  by (simp add: rot33_def vec_sub_def norm_flat_def sum3 power2_eq_square)

lemma target_function_value:
  "optimize_target_function c (col3 T 3) s x =
     ((active_to_full c x s,
       sqrt (\<Sum>i<3. (forward_kinematics c (active_to_full c x s) i 3 - T i 3)\<^sup>2)),
      [FK (active_to_full c x s)])"
  by (simp add: optimize_target_function_def Let_def norm_col)

lemma optimize_function_None:
  "optimize_function c (col3 T 3) s None x =
     (sqrt (\<Sum>i<3. (forward_kinematics c (active_to_full c x s) i 3 - T i 3)\<^sup>2),
      [FK (active_to_full c x s)])"
  by (simp add: optimize_function_def target_function_value)

lemma optimize_function_column:
  "optimize_function c (col3 T 3) s
       (Some (Vec (col3 T j), \<lambda>y. (Vec (col3 (forward_kinematics c y) j), [FK y]))) x =
     (sqrt (\<Sum>i<3. (forward_kinematics c (active_to_full c x s) i 3 - T i 3)\<^sup>2)
        + ORIENTATION_COEFF
          * sqrt (\<Sum>i<3. (forward_kinematics c (active_to_full c x s) i j - T i j)\<^sup>2),
      [FK (active_to_full c x s), FK (active_to_full c x s)])"
  by (simp add: optimize_function_def target_function_value norm_col)

lemma optimize_function_block:
  "optimize_function c (col3 T 3) s
       (Some (Mat (rot33 T), \<lambda>y. (Mat (rot33 (forward_kinematics c y)), [FK y]))) x =
     (sqrt (\<Sum>i<3. (forward_kinematics c (active_to_full c x s) i 3 - T i 3)\<^sup>2)
        + ORIENTATION_COEFF
          * sqrt (\<Sum>i<3. \<Sum>j<3. (forward_kinematics c (active_to_full c x s) i j - T i j)\<^sup>2),
      [FK (active_to_full c x s), FK (active_to_full c x s)])"
  by (simp add: optimize_function_def target_function_value norm_block)

lemma setup_X:
  "orientation_setup c T (Some ''X'') =
     Inr (Some (Vec (col3 T 0), \<lambda>y. (Vec (col3 (forward_kinematics c y) 0), [FK y])))"
  by (simp add: orientation_setup_def orientation_branch_def)

lemma setup_Y:
  "orientation_setup c T (Some ''Y'') =
     Inr (Some (Vec (col3 T 1), \<lambda>y. (Vec (col3 (forward_kinematics c y) 1), [FK y])))"
  by (simp add: orientation_setup_def orientation_branch_def)

lemma setup_Z:
  "orientation_setup c T (Some ''Z'') =
     Inr (Some (Vec (col3 T 2), \<lambda>y. (Vec (col3 (forward_kinematics c y) 2), [FK y])))"
  by (simp add: orientation_setup_def orientation_branch_def)

lemma setup_all:
  "orientation_setup c T (Some ''all'') =
     Inr (Some (Mat (rot33 T), \<lambda>y. (Mat (rot33 (forward_kinematics c y)), [FK y])))"
  by (simp add: orientation_setup_def orientation_branch_def)

lemma setup_cases:
  assumes "orientation_setup c T mode = Inr sel"
  shows "mode = None \<or> mode = Some ''X'' \<or> mode = Some ''Y'' \<or> mode = Some ''Z''
     \<or> mode = Some ''all''"
proof -
  from assms have "\<exists>sel. orientation_setup c T mode = Inr sel" by (rule exI)
  then have "mode \<in> {None, Some ''X'', Some ''Y'', Some ''Z'', Some ''all''}"
    by (simp only: setup_ok_iff)
  then show ?thesis by (simp only: insert_iff empty_iff simp_thms)
qed

lemma objective_by_mode:
  assumes "orientation_setup c T mode = Inr sel"
  shows "optimize_function c (col3 T 3) s sel x =
     (sqrt (\<Sum>i<3. (forward_kinematics c (active_to_full c x s) i 3 - T i 3)\<^sup>2)
        + (case mode of
             None \<Rightarrow> 0
           | Some m \<Rightarrow>
               ORIENTATION_COEFF
               * (if m = ''X'' then
                    sqrt (\<Sum>i<3. (forward_kinematics c (active_to_full c x s) i 0 - T i 0)\<^sup>2)
                  else if m = ''Y'' then
                    sqrt (\<Sum>i<3. (forward_kinematics c (active_to_full c x s) i 1 - T i 1)\<^sup>2)
                  else if m = ''Z'' then
                    sqrt (\<Sum>i<3. (forward_kinematics c (active_to_full c x s) i 2 - T i 2)\<^sup>2)
                  else
                    sqrt (\<Sum>i<3. \<Sum>j<3.
                            (forward_kinematics c (active_to_full c x s) i j - T i j)\<^sup>2))),
      case mode of
        None \<Rightarrow> [FK (active_to_full c x s)]
      | Some m \<Rightarrow> [FK (active_to_full c x s), FK (active_to_full c x s)])"
proof -
  from setup_cases[OF assms] consider
      (n) "mode = None" | (x) "mode = Some ''X''" | (y) "mode = Some ''Y''"
    | (z) "mode = Some ''Z''" | (a) "mode = Some ''all''"
    by blast
  then show ?thesis
  proof cases
    case n
    with assms have "sel = None" by (simp add: orientation_setup_None)
    with n show ?thesis by (simp add: optimize_function_None)
  next
    case x
    with assms have "sel = Some (Vec (col3 T 0), \<lambda>y. (Vec (col3 (forward_kinematics c y) 0), [FK y]))"
      by (simp add: setup_X)
    with x show ?thesis by (simp add: optimize_function_column)
  next
    case y
    with assms have "sel = Some (Vec (col3 T 1), \<lambda>y. (Vec (col3 (forward_kinematics c y) 1), [FK y]))"
      by (simp add: setup_Y)
    with y show ?thesis by (simp add: optimize_function_column)
  next
    case z
    with assms have "sel = Some (Vec (col3 T 2), \<lambda>y. (Vec (col3 (forward_kinematics c y) 2), [FK y]))"
      by (simp add: setup_Z)
    with z show ?thesis by (simp add: optimize_function_column)
  next
    case a
    with assms have "sel = Some (Mat (rot33 T), \<lambda>y. (Mat (rot33 (forward_kinematics c y)), [FK y]))"
      by (simp add: setup_all)
    with a show ?thesis by (simp add: optimize_function_block)
  qed
qed

text \<open>
  C8. With \<open>P\<close> the pose computed for the merged joint vector and \<open>T\<close> the target pose,
  the objective is the Euclidean distance of the translations plus, weighted by
  \<open>ORIENTATION_COEFF\<close>, the orientation error of the mode: under "X", "Y", "Z" the
  Euclidean norm of the difference of rotation column 0, 1, 2 of \<open>P\<close> and of \<open>T\<close>; under
  "all" the Frobenius norm of the difference of the 3 x 3 rotation blocks; under \<open>None\<close>
  there is no orientation term.
\<close>

theorem orientation_mode_metric:
  assumes "orientation_setup c T mode = Inr sel"
  shows "fst (optimize_function c (col3 T 3) s sel x) =
     sqrt (\<Sum>i<3. (forward_kinematics c (active_to_full c x s) i 3 - T i 3)\<^sup>2)
        + (case mode of
             None \<Rightarrow> 0
           | Some m \<Rightarrow>
               ORIENTATION_COEFF
               * (if m = ''X'' then
                    sqrt (\<Sum>i<3. (forward_kinematics c (active_to_full c x s) i 0 - T i 0)\<^sup>2)
                  else if m = ''Y'' then
                    sqrt (\<Sum>i<3. (forward_kinematics c (active_to_full c x s) i 1 - T i 1)\<^sup>2)
                  else if m = ''Z'' then
                    sqrt (\<Sum>i<3. (forward_kinematics c (active_to_full c x s) i 2 - T i 2)\<^sup>2)
                  else
                    sqrt (\<Sum>i<3. \<Sum>j<3.
                            (forward_kinematics c (active_to_full c x s) i j - T i j)\<^sup>2)))"
  by (simp add: objective_by_mode[OF assms])

lemma slider_single: "active_to_full (slider_chain [True] 0) [v] [w] = [v]"
  by (simp add: active_to_full_def slider_chain_def free_link_def)

lemma slider_single_fk: "forward_kinematics (slider_chain [True] 0) = slider_fk"
  by (simp add: slider_chain_def)

theorem orientation_mode_metric_witness:
  "(\<exists>sel. orientation_setup (slider_chain [True] 0) quarter_turn_frame (Some ''all'') = Inr sel
      \<and> fst (optimize_function (slider_chain [True] 0) (col3 quarter_turn_frame 3) [0] sel [2])
           = 4)
   \<and> (\<exists>sel. orientation_setup (slider_chain [True] 0) quarter_turn_frame (Some ''Z'') = Inr sel
      \<and> fst (optimize_function (slider_chain [True] 0) (col3 quarter_turn_frame 3) [0] sel [2])
           = 2)
   \<and> (\<exists>sel. orientation_setup (slider_chain [True] 0) quarter_turn_frame None = Inr sel
      \<and> fst (optimize_function (slider_chain [True] 0) (col3 quarter_turn_frame 3) [0] sel [2])
           = 2)"
proof -
  have four: "sqrt 4 = 2" by simp
  have a: "fst (optimize_function (slider_chain [True] 0) (col3 quarter_turn_frame 3) [0]
       (Some (Mat (rot33 quarter_turn_frame),
              \<lambda>y. (Mat (rot33 (forward_kinematics (slider_chain [True] 0) y)), [FK y]))) [2]) = 4"
    unfolding orientation_mode_metric[OF setup_all]
    by (simp add: slider_single slider_single_fk sum3 slider_fk_def quarter_turn_frame_def
        ORIENTATION_COEFF_def four)
  have b: "fst (optimize_function (slider_chain [True] 0) (col3 quarter_turn_frame 3) [0]
       (Some (Vec (col3 quarter_turn_frame 2),
              \<lambda>y. (Vec (col3 (forward_kinematics (slider_chain [True] 0) y) 2), [FK y]))) [2]) = 2"
    unfolding orientation_mode_metric[OF setup_Z]
    by (simp add: slider_single slider_single_fk sum3 slider_fk_def quarter_turn_frame_def
        ORIENTATION_COEFF_def four)
  have c: "fst (optimize_function (slider_chain [True] 0) (col3 quarter_turn_frame 3) [0]
       None [2]) = 2"
    unfolding orientation_mode_metric[OF orientation_setup_None]
    by (simp add: slider_single slider_single_fk sum3 slider_fk_def quarter_turn_frame_def four)
  from a b c show ?thesis
    by (simp only: setup_all setup_Z orientation_setup_None simp_thms sum.inject ex_simps)
qed

subsection \<open>Forward-kinematics calls per evaluation\<close>

lemma optimize_total_events:
  assumes "optimize_total c target s sel reg x = (Inr v, evs)"
  shows "evs = snd (optimize_function c target s sel x)"
proof (cases reg)
  case None
  with assms show ?thesis
    by (simp add: optimize_total_def split_def Let_def)
next
  case (Some r)
  show ?thesis
  proof (cases "np_subtract x (drop (first_active_joint c) s)")
    case (Inl e)
    with assms Some show ?thesis by (simp add: optimize_total_def)
  next
    case (Inr d)
    with assms Some show ?thesis by (simp add: optimize_total_def split_def Let_def)
  qed
qed

lemma optimize_total_no_regularization:
  "optimize_total c target s sel None x =
     (Inr (fst (optimize_function c target s sel x)), snd (optimize_function c target s sel x))"
  by (simp add: optimize_total_def split_def Let_def)

text \<open>
  C2, as amended. One evaluation of the objective calls the forward kinematics once when
  the mode is \<open>None\<close> and twice under "X", "Y", "Z" and "all", each time with the
  merged joint vector; an evaluation of the regularised objective that returns a value
  makes exactly these calls.
\<close>

theorem fk_calls_per_evaluation:
  assumes "orientation_setup c T mode = Inr sel"
  shows "snd (optimize_function c (col3 T 3) s sel x) =
           (case mode of
              None \<Rightarrow> [FK (active_to_full c x s)]
            | Some m \<Rightarrow> [FK (active_to_full c x s), FK (active_to_full c x s)])
     \<and> fk_calls (snd (optimize_function c (col3 T 3) s sel x)) =
           (case mode of None \<Rightarrow> 1 | Some m \<Rightarrow> 2)
     \<and> (\<forall>v evs. optimize_total c (col3 T 3) s sel reg x = (Inr v, evs) \<longrightarrow>
           fk_calls evs = (case mode of None \<Rightarrow> 1 | Some m \<Rightarrow> 2))"
proof -
  have e: "snd (optimize_function c (col3 T 3) s sel x) =
           (case mode of
              None \<Rightarrow> [FK (active_to_full c x s)]
            | Some m \<Rightarrow> [FK (active_to_full c x s), FK (active_to_full c x s)])"
    by (simp add: objective_by_mode[OF assms])
  then have n: "fk_calls (snd (optimize_function c (col3 T 3) s sel x)) =
           (case mode of None \<Rightarrow> 1 | Some m \<Rightarrow> 2)"
    by (cases mode) simp_all
  have "\<forall>v evs. optimize_total c (col3 T 3) s sel reg x = (Inr v, evs) \<longrightarrow>
           fk_calls evs = (case mode of None \<Rightarrow> 1 | Some m \<Rightarrow> 2)"
    using n optimize_total_events[of c "col3 T 3" s sel reg x] by blast
  with e n show ?thesis by (intro conjI)
qed

theorem fk_calls_per_evaluation_witness:
  "fk_calls (snd (optimize_function (slider_chain [True] 0) (col3 identity_frame 3) [0] None [2]))
     = 1
   \<and> (\<exists>sel. orientation_setup (slider_chain [True] 0) identity_frame (Some ''Z'') = Inr sel
        \<and> snd (optimize_function (slider_chain [True] 0) (col3 identity_frame 3) [0] sel [2])
            = [FK [2], FK [2]])"
proof -
  from fk_calls_per_evaluation[OF orientation_setup_None, of "slider_chain [True] 0"
      identity_frame "[0]" "[2]" None]
  have a: "fk_calls (snd (optimize_function (slider_chain [True] 0) (col3 identity_frame 3)
      [0] None [2])) = 1"
    by simp
  from fk_calls_per_evaluation[OF setup_Z, of "slider_chain [True] 0"
      identity_frame "[0]" "[2]" None]
  have b: "snd (optimize_function (slider_chain [True] 0) (col3 identity_frame 3) [0]
       (Some (Vec (col3 identity_frame 2),
              \<lambda>y. (Vec (col3 (forward_kinematics (slider_chain [True] 0) y) 2), [FK y]))) [2])
        = [FK [2], FK [2]]"
    by (simp add: slider_single)
  from a b show ?thesis
    by (simp only: setup_Z simp_thms sum.inject ex_simps)
qed

lemma slider_single_from_full: "active_from_full (slider_chain [True] 0) [v] = [v]"
  by (simp add: active_from_full_def slider_chain_def free_link_def)

lemma slider_single_bounds: "real_bounds (slider_chain [True] 0) = [(None, None)]"
  by (simp add: real_bounds_links slider_chain_def free_link_def)

text \<open>
  C2 as stated fails: under mode "X" an optimiser that evaluates the objective exactly
  once causes two forward-kinematics calls.
\<close>

theorem fk_called_twice_counterexample:
  "inverse_kinematic_optimization (slider_chain [True] 0) identity_frame (Some [0]) None None
       (Some ''X'') one_shot_minimize =
     (Inr [0], [Minimize [0] [(None, None)] None, FK [0], FK [0], LogInfo 0])
   \<and> fk_calls (snd (inverse_kinematic_optimization (slider_chain [True] 0) identity_frame
         (Some [0]) None None (Some ''X'') one_shot_minimize)) = 2"
proof -
  have "inverse_kinematic_optimization (slider_chain [True] 0) identity_frame (Some [0]) None None
       (Some ''X'') one_shot_minimize =
     (Inr [0], [Minimize [0] [(None, None)] None, FK [0], FK [0], LogInfo 0])"
    by (simp add: solve_run[OF setup_X] one_shot_minimize_def optimize_total_no_regularization
        optimize_function_column slider_single slider_single_from_full slider_single_bounds)
  then show ?thesis by simp
qed

subsection \<open>Where the objective differs from its description\<close>

text \<open>
  C1. The comment of line 37 and the names \<open>squared_distance_to_target\<close>,
  \<open>squared_distance_to_orientation\<close> and \<open>squared_distance\<close> announce squared distances,
  but \<open>np.linalg.norm\<close> is not squared: with the end effector at (2, 0, 0), the target
  at the origin and no orientation mode, the position error is 2 and the objective is 2,
  not 2 squared.
\<close>

theorem objective_not_squared:
  "sqrt (\<Sum>i<3. (forward_kinematics (slider_chain [True] 0)
                     (active_to_full (slider_chain [True] 0) [2] [0]) i 3
                   - identity_frame i 3)\<^sup>2) = 2
   \<and> fst (optimize_function (slider_chain [True] 0) (col3 identity_frame 3) [0] None [2]) = 2
   \<and> fst (optimize_function (slider_chain [True] 0) (col3 identity_frame 3) [0] None [2])
       \<noteq> 2\<^sup>2 + ORIENTATION_COEFF * 0\<^sup>2"
proof -
  have four: "sqrt 4 = 2" by simp
  have p: "sqrt (\<Sum>i<3. (forward_kinematics (slider_chain [True] 0)
                     (active_to_full (slider_chain [True] 0) [2] [0]) i 3
                   - identity_frame i 3)\<^sup>2) = 2"
    by (simp add: slider_single slider_single_fk sum3 slider_fk_def identity_frame_def four)
  have v: "fst (optimize_function (slider_chain [True] 0) (col3 identity_frame 3) [0] None [2])
      = 2"
    by (simp add: optimize_function_None p)
  from p v show ?thesis by simp
qed

lemma slider_fields:
  "forward_kinematics (slider_chain fl k) = slider_fk" "first_active_joint (slider_chain fl k) = k"
  by (simp_all add: slider_chain_def)

lemma limited_drop: "drop (first_active_joint limited_chain) [a, b, c, d] = [b, c, d]"
  by (simp add: limited_chain_def)

lemma two_link_to_full: "active_to_full (slider_chain [True, False] 0) [v] [a, b] = [v, b]"
  by (simp add: active_to_full_def slider_chain_def free_link_def)

lemma two_link_from_full: "active_from_full (slider_chain [True, False] 0) [a, b] = [a]"
  by (simp add: active_from_full_def slider_chain_def free_link_def)

text \<open>
  C3. The regularisation subtracts the slice
  \<open>starting_nodes_angles[chain.first_active_joint:]\<close>, not the reduction
  \<open>chain.active_from_full(starting_nodes_angles)\<close> that forms the initial guess. On a
  chain with a fixed link after the first active one the two differ: with links fixed,
  active, active, fixed the subtraction raises at the initial guess, and with links
  active, fixed the one-entry vector is broadcast over the two-entry slice, so that at
  \<open>x\<close> equal to the reduced starting vector the objective is 2 where the base objective
  is 0.
\<close>

theorem regularization_uses_slice:
  "optimize_total limited_chain (col3 identity_frame 3) [1, 2, 3, 4] None (Some 1)
       (active_from_full limited_chain [1, 2, 3, 4]) =
     (Inl (ValueError ''operands could not be broadcast together''), [])
   \<and> inverse_kinematic_optimization limited_chain identity_frame (Some [1, 2, 3, 4]) (Some 1)
       None None one_shot_minimize =
     (Inl (ValueError ''operands could not be broadcast together''),
      [Minimize [2, 3] [(None, None), (Some (- 1), Some 1)] None])
   \<and> active_from_full (slider_chain [True, False] 0) [0, 2] = [0 :: real]
   \<and> fst (optimize_function (slider_chain [True, False] 0) (col3 (slider_fk [2]) 3) [0, 2]
          None [0]) = 0
   \<and> fst (optimize_total (slider_chain [True, False] 0) (col3 (slider_fk [2]) 3) [0, 2]
          None (Some 1) [0]) = Inr 2"
proof -
  have four: "sqrt 4 = 2" by simp
  have a: "optimize_total limited_chain (col3 identity_frame 3) [1, 2, 3, 4] None (Some 1)
       (active_from_full limited_chain [1, 2, 3, 4]) =
     (Inl (ValueError ''operands could not be broadcast together''), [])"
    by (simp add: optimize_total_def limited_from_full limited_drop np_subtract_def)
  have b: "inverse_kinematic_optimization limited_chain identity_frame (Some [1, 2, 3, 4])
       (Some 1) None None one_shot_minimize =
     (Inl (ValueError ''operands could not be broadcast together''),
      [Minimize [2, 3] [(None, None), (Some (- 1), Some 1)] None])"
    using a
    by (simp add: solve_run[OF orientation_setup_None] one_shot_minimize_def limited_from_full
        limited_bounds)
  have c: "active_from_full (slider_chain [True, False] 0) [0, 2] = [0 :: real]"
    by (rule two_link_from_full)
  have d: "fst (optimize_function (slider_chain [True, False] 0) (col3 (slider_fk [2]) 3)
          [0, 2] None [0]) = 0"
    by (simp add: optimize_function_None two_link_to_full sum3 slider_fk_def slider_fields)
  have e: "fst (optimize_total (slider_chain [True, False] 0) (col3 (slider_fk [2]) 3) [0, 2]
          None (Some 1) [0]) = Inr 2"
    using d
    by (simp add: optimize_total_def np_subtract_def norm_flat_def split_def Let_def four
        slider_fields)
  from a b c d e show ?thesis by (intro conjI)
qed

end
